theory Spec2Isabelle
  imports Main "HOL-Library.Sublist" "HOL-Library.AList"
begin

section \<open>Data model of \<^verbatim>\<open>src/index.ts\<close>\<close>

text \<open>
  \<^verbatim>\<open>ParseInput = { code: string, index: number }\<close>. The index is kept as an
  integer, so that the guard \<^verbatim>\<open>input.index >= 0\<close> of \<^verbatim>\<open>char\<close> stays a real
  test. The code computes on doubles, which are the integers of the model as long as the
  index stays below \<open>2^53\<close> in magnitude, as every index within a code string does. A
  code string is a list of 8-bit characters (code units below 256).
\<close>

record ParseInput =
  code :: string
  index :: int

text \<open>\<^verbatim>\<open>ParseSource = { code, start, end }\<close>; the field \<^verbatim>\<open>end\<close> is written \<open>end'\<close>.\<close>

record ParseSource =
  code :: string
  start :: int
  end' :: int

text \<open>
  \<^verbatim>\<open>ParseResult<TParsed, TError>\<close>: the object of kind \<^verbatim>\<open>'success'\<close>
  (fields input, src, parsed), the object of kind \<^verbatim>\<open>'error'\<close> (fields input, error)
  or the value \<^verbatim>\<open>undefined\<close>.
\<close>

datatype ('a, 'e) ParseResult =
    Success ParseInput ParseSource 'a
  | Error ParseInput 'e
  | Undefined

text \<open>
  A parser is a function from an input to a result. The loops of \<^verbatim>\<open>manySep0\<close> and
  \<^verbatim>\<open>take0\<close> are \<^verbatim>\<open>while (true)\<close> loops, so a call of a parser need not return:
  \<open>None\<close> is a call that does not return, \<open>Some r\<close> one that returns \<open>r\<close>. The
  limits of an engine on the size of a string or of an array are not modelled.
\<close>

type_synonym ('a, 'e) Parser = "ParseInput \<Rightarrow> ('a, 'e) ParseResult option"

section \<open>Primitive parsers\<close>

definition input :: "string \<Rightarrow> ParseInput" where
  "input c = \<lparr>ParseInput.code = c, index = 0\<rparr>"

text \<open>
  \<^verbatim>\<open>nothing\<close> returns a success whose parsed value is \<^verbatim>\<open>undefined\<close>. Its only caller
  is \<^verbatim>\<open>optional\<close>, whose values have the type \<^verbatim>\<open>TParsed | undefined\<close>: that type is
  \<open>'a option\<close>, and \<^verbatim>\<open>undefined\<close> is \<open>None\<close>.
\<close>

definition nothing :: "('a option, 'e) Parser" where
  "nothing inp =
     Some (Success inp
             \<lparr>code = ParseInput.code inp, start = index inp, end' = index inp\<rparr> None)"

text \<open>
  \<^verbatim>\<open>input.code.substring(input.index).startsWith(str)\<close>: \<^verbatim>\<open>substring\<close> reads a
  negative index as 0 and an index beyond the end as the end, which is what
  \<open>drop (nat i)\<close> does.
\<close>

definition exact :: "string \<Rightarrow> (string, 'e) Parser" where
  "exact str inp =
     (if prefix str (drop (nat (index inp)) (ParseInput.code inp)) then
        (let e = index inp + int (length str) in
         Some (Success (inp\<lparr>index := e\<rparr>)
                 \<lparr>code = ParseInput.code inp, start = index inp, end' = e\<rparr> str))
      else Some Undefined)"

definition filter_parser :: "('a, 'e) Parser \<Rightarrow> ('a \<Rightarrow> bool) \<Rightarrow> ('a, 'e) Parser" where
  "filter_parser parser pred inp =
     (case parser inp of
        None \<Rightarrow> None
      | Some res \<Rightarrow>
          (case res of
             Success i s v \<Rightarrow> if \<not> pred v then Some Undefined else Some res
           | _ \<Rightarrow> Some res))"

definition map_parser ::
  "('a, 'e) Parser \<Rightarrow> ('a \<Rightarrow> ParseSource \<Rightarrow> 'b) \<Rightarrow> ('b, 'e) Parser" where
  "map_parser parser fn inp =
     (case parser inp of
        None \<Rightarrow> None
      | Some (Success i s v) \<Rightarrow> Some (Success i s (fn v s))
      | Some (Error i e) \<Rightarrow> Some (Error i e)
      | Some Undefined \<Rightarrow> Some Undefined)"

definition required :: "('a, 'e) Parser \<Rightarrow> (ParseInput \<Rightarrow> 'e) \<Rightarrow> ('a, 'e) Parser" where
  "required parser error inp =
     (case parser inp of
        None \<Rightarrow> None
      | Some res \<Rightarrow>
          (case res of
             Undefined \<Rightarrow> Some (Error inp (error inp))
           | _ \<Rightarrow> Some res))"

subsection \<open>Characters\<close>

text \<open>
  \<^verbatim>\<open>char\<close>: the parsed value \<^verbatim>\<open>input.code[input.index]\<close> is a string of length one;
  the read is guarded by the bounds test, as in the source.
\<close>

definition char :: "(string, 'e) Parser" where
  "char inp =
     (if index inp \<ge> 0 \<and> index inp < int (length (ParseInput.code inp)) then
        Some (Success (inp\<lparr>index := index inp + 1\<rparr>)
                \<lparr>code = ParseInput.code inp, start = index inp, end' = index inp + 1\<rparr>
                [ParseInput.code inp ! nat (index inp)])
      else Some Undefined)"

text \<open>
  The three regular expressions are character classes; \<^verbatim>\<open>ch.match(re) != null\<close> holds
  when some character of \<^verbatim>\<open>ch\<close> is in the class. Below 256 the class \<^verbatim>\<open>\s\<close> is
  tab, line feed, vertical tab, form feed, carriage return, space and no-break space.
\<close>

definition whitespaceRegex :: "char \<Rightarrow> bool" where
  "whitespaceRegex c = (of_char c \<in> {9, 10, 11, 12, 13, 32, 160 :: nat})"

definition numericRegex :: "char \<Rightarrow> bool" where
  "numericRegex c = (48 \<le> (of_char c :: nat) \<and> (of_char c :: nat) \<le> 57)"

definition alphaRegex :: "char \<Rightarrow> bool" where
  "alphaRegex c =
     ((65 \<le> (of_char c :: nat) \<and> (of_char c :: nat) \<le> 90) \<or>
      (97 \<le> (of_char c :: nat) \<and> (of_char c :: nat) \<le> 122))"

definition whitespaceChar :: "(string, 'e) Parser" where
  "whitespaceChar = filter_parser char (\<lambda>ch. list_ex whitespaceRegex ch)"

definition numericChar :: "(string, 'e) Parser" where
  "numericChar = filter_parser char (\<lambda>ch. list_ex numericRegex ch)"

definition alphaChar :: "(string, 'e) Parser" where
  "alphaChar = filter_parser char (\<lambda>ch. list_ex alphaRegex ch)"

section \<open>Combinators\<close>

text \<open>
  \<^verbatim>\<open>parser(input) ?? nothing(input)\<close>. A result of \<^verbatim>\<open>parser\<close> is returned as it is;
  its value \<open>v\<close> of type \<^verbatim>\<open>TParsed\<close> is the value \<open>Some v\<close> of
  \<^verbatim>\<open>TParsed | undefined\<close>.
\<close>

definition optional :: "('a, 'e) Parser \<Rightarrow> ('a option, 'e) Parser" where
  "optional parser inp =
     (case parser inp of
        None \<Rightarrow> None
      | Some (Success i s v) \<Rightarrow> Some (Success i s (Some v))
      | Some (Error i e) \<Rightarrow> Some (Error i e)
      | Some Undefined \<Rightarrow> nothing inp)"

text \<open>
  \<^verbatim>\<open>oneOf\<close>: the loop over the possibilities; leaving the loop returns
  \<^verbatim>\<open>undefined\<close>.
\<close>

fun oneOf :: "('a, 'e) Parser list \<Rightarrow> ('a, 'e) Parser" where
  "oneOf [] inp = Some Undefined"
| "oneOf (possibility # possibilities) inp =
     (case possibility inp of
        None \<Rightarrow> None
      | Some res \<Rightarrow>
          (case res of
             Undefined \<Rightarrow> oneOf possibilities inp
           | _ \<Rightarrow> Some res))"

text \<open>
  \<^verbatim>\<open>tuple\<close>: the loop over the pieces, with the variables \<^verbatim>\<open>nextInput\<close> and
  \<^verbatim>\<open>items\<close>. A result that is not a success is returned as it is (the cast of the
  source changes its type only).
\<close>

fun tuple_loop ::
  "('a, 'e) Parser list \<Rightarrow> ParseInput \<Rightarrow> ParseInput \<Rightarrow> 'a list
     \<Rightarrow> ('a list, 'e) ParseResult option" where
  "tuple_loop [] inp nextInput items =
     Some (Success nextInput
             \<lparr>code = ParseInput.code inp, start = index inp, end' = index nextInput\<rparr>
             items)"
| "tuple_loop (piece # pieces) inp nextInput items =
     (case piece nextInput of
        None \<Rightarrow> None
      | Some (Success i s v) \<Rightarrow> tuple_loop pieces inp i (items @ [v])
      | Some (Error i e) \<Rightarrow> Some (Error i e)
      | Some Undefined \<Rightarrow> Some Undefined)"

definition tuple :: "('a, 'e) Parser list \<Rightarrow> ('a list, 'e) Parser" where
  "tuple pieces inp = tuple_loop pieces inp inp []"

text \<open>
  \<^verbatim>\<open>manySep0\<close>: the \<^verbatim>\<open>while (true)\<close> loop with the variables \<^verbatim>\<open>nextInput\<close> and
  \<^verbatim>\<open>items\<close>. The separator is \<open>None\<close> for \<^verbatim>\<open>undefined\<close>. Each round first runs the
  separator part, which either returns from the function (\<open>Inl\<close>) or hands the next
  input to the item part (\<open>Inr\<close>).
\<close>

partial_function (option) manySep0_loop ::
  "('a, 'e) Parser \<Rightarrow> ('b, 'e) Parser option \<Rightarrow> ParseInput \<Rightarrow> ParseInput \<Rightarrow> 'a list
     \<Rightarrow> ('a list, 'e) ParseResult option" where
  "manySep0_loop item sep inp nextInput items =
     (case (if length items > 0 \<and> sep \<noteq> None then
              (case (the sep) nextInput of
                 None \<Rightarrow> None
               | Some Undefined \<Rightarrow>
                   Some (Inl (Success nextInput
                     \<lparr>code = ParseInput.code inp, start = index inp, end' = index nextInput\<rparr>
                     items))
               | Some (Error i e) \<Rightarrow> Some (Inl (Error i e))
               | Some (Success i s v) \<Rightarrow> Some (Inr i))
            else Some (Inr nextInput)) of
        None \<Rightarrow> None
      | Some (Inl res) \<Rightarrow> Some res
      | Some (Inr nextInput') \<Rightarrow>
          (case item nextInput' of
             None \<Rightarrow> None
           | Some Undefined \<Rightarrow>
               Some (Success nextInput'
                 \<lparr>code = ParseInput.code inp, start = index inp, end' = index nextInput'\<rparr>
                 items)
           | Some (Error i e) \<Rightarrow> Some (Error i e)
           | Some (Success i s v) \<Rightarrow> manySep0_loop item sep inp i (items @ [v])))"

declare manySep0_loop.simps [code]

definition manySep0 ::
  "('a, 'e) Parser \<Rightarrow> ('b, 'e) Parser option \<Rightarrow> ('a list, 'e) Parser" where
  "manySep0 item sep inp = manySep0_loop item sep inp inp []"

definition manySep1 ::
  "('a, 'e) Parser \<Rightarrow> ('b, 'e) Parser option \<Rightarrow> ('a list, 'e) Parser" where
  "manySep1 item sep = filter_parser (manySep0 item sep) (\<lambda>parsed. length parsed > 0)"

text \<open>
  \<^verbatim>\<open>many0\<close> and \<^verbatim>\<open>many1\<close> pass \<^verbatim>\<open>undefined\<close> for the separator, whose value
  type does not matter then.
\<close>

definition many0 :: "('a, 'e) Parser \<Rightarrow> ('a list, 'e) Parser" where
  "many0 item = manySep0 item (None :: (unit, 'e) Parser option)"

definition many1 :: "('a, 'e) Parser \<Rightarrow> ('a list, 'e) Parser" where
  "many1 item = manySep1 item (None :: (unit, 'e) Parser option)"

text \<open>
  \<^verbatim>\<open>take0\<close>: the \<^verbatim>\<open>while (true)\<close> loop with the variables \<^verbatim>\<open>nextInput\<close> and
  \<^verbatim>\<open>res\<close>.
\<close>

partial_function (option) take0_loop ::
  "(string, 'e) Parser \<Rightarrow> ParseInput \<Rightarrow> ParseInput \<Rightarrow> string
     \<Rightarrow> (string, 'e) ParseResult option" where
  "take0_loop charParser inp nextInput res =
     (case charParser nextInput of
        None \<Rightarrow> None
      | Some Undefined \<Rightarrow>
          Some (Success nextInput
            \<lparr>code = ParseInput.code inp, start = index inp, end' = index nextInput\<rparr> res)
      | Some (Error i e) \<Rightarrow> Some (Error i e)
      | Some (Success i s v) \<Rightarrow> take0_loop charParser inp i (res @ v))"

declare take0_loop.simps [code]

definition take0 :: "(string, 'e) Parser \<Rightarrow> (string, 'e) Parser" where
  "take0 charParser inp = take0_loop charParser inp inp []"

definition take1 :: "(string, 'e) Parser \<Rightarrow> (string, 'e) Parser" where
  "take1 chParser = filter_parser (take0 chParser) (\<lambda>s. length s > 0)"

definition whitespace :: "(unit, 'e) Parser" where
  "whitespace = map_parser (take0 whitespaceChar) (\<lambda>_ _. ())"

section \<open>The JSON grammar of \<^verbatim>\<open>src/deno_test.ts\<close>\<close>

text \<open>
  The values of the test grammar. A number is kept as the decimal text handed to
  \<^verbatim>\<open>Number\<close>, whose floating-point conversion is not part of the model; an object is
  the list of its properties in insertion order (the place that JavaScript gives to keys
  that read as array indices is not modelled).
\<close>

datatype jsval =
    JUndefined
  | JNull
  | JBool bool
  | JNum string
  | JStr string
  | JArr "jsval list"
  | JObj "(string \<times> jsval) list"

text \<open>
  The pieces of a \<^verbatim>\<open>tuple\<close> of the grammar have different value types; \<open>tuple\<close>
  takes pieces of one type, so a piece is given together with the injection of its values
  into \<open>jsval\<close>. The injection leaves the input, the span and every error as they are.
\<close>

definition slot :: "('a \<Rightarrow> jsval) \<Rightarrow> ('a, 'e) Parser \<Rightarrow> (jsval, 'e) Parser" where
  "slot f parser = map_parser parser (\<lambda>v _. f v)"

definition nil :: "(jsval, string) Parser" where
  "nil = map_parser (exact ''null'') (\<lambda>_ _. JNull)"

definition boolean :: "(jsval, string) Parser" where
  "boolean = map_parser (oneOf [exact ''true'', exact ''false'']) (\<lambda>s _. JBool (s = ''true''))"

definition number :: "(jsval, string) Parser" where
  "number =
     map_parser
       (tuple
          [slot JStr (take1 numericChar),
           slot (\<lambda>back. case back of None \<Rightarrow> JUndefined | Some piece \<Rightarrow> JArr (map JStr piece))
             (optional
                (tuple
                   [exact ''.'',
                    required (take1 numericChar)
                      (\<lambda>_. ''Expected numbers after decimal point'')]))])
       (\<lambda>items _.
          case items of
            [JStr front, back] \<Rightarrow>
              (case back of
                 JArr [decimal, JStr fractionDigits] \<Rightarrow> JNum (front @ ''.'' @ fractionDigits)
               | _ \<Rightarrow> JNum front)
          | _ \<Rightarrow> JUndefined)"

definition string :: "(string, string) Parser" where
  "string =
     map_parser
       (tuple
          [exact [CHR 0x22],
           take0 (filter_parser char (\<lambda>ch. ch \<noteq> [CHR 0x22])),
           required (exact [CHR 0x22])
             (\<lambda>_. ''Expected closing quote '' @ [CHR 0x27, CHR 0x22, CHR 0x27])])
       (\<lambda>items _. items ! 1)"

definition commaWithWhitespace :: "(jsval list, string) Parser" where
  "commaWithWhitespace =
     tuple [slot (\<lambda>_. JUndefined) whitespace, slot JStr (exact '',''),
            slot (\<lambda>_. JUndefined) whitespace]"

definition array :: "(jsval, string) Parser \<Rightarrow> (jsval, string) Parser" where
  "array jsonValue =
     map_parser
       (tuple
          [slot JStr (exact ''[''),
           slot (\<lambda>_. JUndefined) whitespace,
           slot JArr (manySep0 jsonValue (Some commaWithWhitespace)),
           slot (\<lambda>_. JUndefined) whitespace,
           slot JStr (required (exact '']'')
             (\<lambda>_. ''Expected closing bracket '' @ [CHR 0x27, CHR '']'', CHR 0x27]))])
       (\<lambda>items _. items ! 2)"

text \<open>
  \<^verbatim>\<open>Object.fromEntries\<close>: a later entry replaces the value of an earlier one with the
  same key.
\<close>

definition fromEntries :: "jsval list \<Rightarrow> (string \<times> jsval) list" where
  "fromEntries entries =
     fold (\<lambda>entry obj. case entry of JArr [JStr key, v] \<Rightarrow> AList.update key v obj | _ \<Rightarrow> obj)
       entries []"

definition object :: "(jsval, string) Parser \<Rightarrow> (jsval, string) Parser" where
  "object jsonValue =
     map_parser
       (tuple
          [slot JStr (exact ''{''),
           slot (\<lambda>_. JUndefined) whitespace,
           slot JArr
             (manySep0
                (map_parser
                   (tuple
                      [slot JStr string,
                       slot (\<lambda>_. JUndefined) whitespace,
                       slot JStr (required (exact '':'')
                         (\<lambda>_. ''Expected '' @ [CHR 0x27] @ '':'' @ [CHR 0x27] @ '' after object key'')),
                       slot (\<lambda>_. JUndefined) whitespace,
                       required jsonValue
                         (\<lambda>_. ''Expected value after '' @ [CHR 0x27] @ '':'' @ [CHR 0x27])])
                   (\<lambda>items _. JArr [items ! 0, items ! 4]))
                (Some commaWithWhitespace)),
           slot (\<lambda>_. JUndefined) whitespace,
           slot JStr (required (exact ''}'')
             (\<lambda>_. ''Expected closing curly brace '' @ [CHR 0x27, CHR ''}'', CHR 0x27]))])
       (\<lambda>items _. case items ! 2 of JArr entries \<Rightarrow> JObj (fromEntries entries) | _ \<Rightarrow> JUndefined)"

text \<open>
  \<^verbatim>\<open>jsonValue\<close> refers to itself through \<^verbatim>\<open>array\<close> and \<^verbatim>\<open>object\<close>, which here
  take the parser of the nested values as an argument. The recursion is bounded by a
  nesting budget: \<open>jsonValue depth\<close> parses values nested less than \<open>depth\<close> deep and
  does not return (\<open>None\<close>) when it is called with no budget left.
\<close>

primrec jsonValue :: "nat \<Rightarrow> (jsval, string) Parser" where
  "jsonValue 0 = (\<lambda>inp. None)"
| "jsonValue (Suc depth) =
     oneOf [nil, boolean, number, slot JStr string,
            array (jsonValue depth), object (jsonValue depth)]"

definition jsonDocument :: "nat \<Rightarrow> (jsval, string) Parser" where
  "jsonDocument depth =
     map_parser
       (tuple [slot (\<lambda>_. JUndefined) whitespace, jsonValue depth,
               slot (\<lambda>_. JUndefined) whitespace])
       (\<lambda>items _. items ! 1)"

section \<open>Notions used to state the properties\<close>

text \<open>
  The pieces of a list all succeed when run in order, each from the input left by its
  predecessor: the result is the input left by the last one and the list of the parsed
  values.
\<close>

fun matched_in_order :: "('a, 'e) Parser list \<Rightarrow> ParseInput \<Rightarrow> (ParseInput \<times> 'a list) option" where
  "matched_in_order [] c = Some (c, [])"
| "matched_in_order (p # ps) c =
     (case p c of
        Some (Success next s v) \<Rightarrow>
          (case matched_in_order ps next of
             Some (c', vs) \<Rightarrow> Some (c', v # vs)
           | None \<Rightarrow> None)
      | _ \<Rightarrow> None)"

text \<open>
  The calls that a run of \<open>manySep0 item sep\<close> on \<open>inp\<close> makes.
  \<open>manySep0_calls_item item sep inp n items\<close>: the run calls \<open>item\<close> at the input \<open>n\<close>
  with \<open>items\<close> accumulated so far; \<open>manySep0_calls_sep item sep inp n items\<close>: it calls
  the separator at \<open>n\<close> with \<open>items\<close> accumulated. The first call is the one of
  \<open>item\<close> at \<open>inp\<close>; after a success of \<open>item\<close> the next call is the separator's
  when there is one, and the one of \<open>item\<close> otherwise; after a success of the separator
  the next call is the one of \<open>item\<close>.
\<close>

inductive
  manySep0_calls_item ::
    "('a, 'e) Parser \<Rightarrow> ('b, 'e) Parser option \<Rightarrow> ParseInput \<Rightarrow> ParseInput \<Rightarrow> 'a list \<Rightarrow> bool"
  and manySep0_calls_sep ::
    "('a, 'e) Parser \<Rightarrow> ('b, 'e) Parser option \<Rightarrow> ParseInput \<Rightarrow> ParseInput \<Rightarrow> 'a list \<Rightarrow> bool"
  for item :: "('a, 'e) Parser" and sep :: "('b, 'e) Parser option" and inp :: ParseInput
where
  first_item: "manySep0_calls_item item sep inp inp []"
| next_item:
    "manySep0_calls_item item sep inp n items \<Longrightarrow> item n = Some (Success n' s v) \<Longrightarrow>
     sep = None \<Longrightarrow> manySep0_calls_item item sep inp n' (items @ [v])"
| next_sep:
    "manySep0_calls_item item sep inp n items \<Longrightarrow> item n = Some (Success n' s v) \<Longrightarrow>
     sep = Some sp \<Longrightarrow> manySep0_calls_sep item sep inp n' (items @ [v])"
| item_after_sep:
    "manySep0_calls_sep item sep inp n items \<Longrightarrow> sep = Some sp \<Longrightarrow>
     sp n = Some (Success n' s w) \<Longrightarrow> manySep0_calls_item item sep inp n' items"

text \<open>
  The calls that a run of \<open>take0 charParser\<close> on \<open>inp\<close> makes:
  \<open>take0_calls charParser inp n res\<close> when it calls \<open>charParser\<close> at \<open>n\<close> with the text
  \<open>res\<close> accumulated.
\<close>

inductive take0_calls ::
    "(string, 'e) Parser \<Rightarrow> ParseInput \<Rightarrow> ParseInput \<Rightarrow> string \<Rightarrow> bool"
  for charParser :: "(string, 'e) Parser" and inp :: ParseInput
where
  first_char: "take0_calls charParser inp inp []"
| next_char:
    "take0_calls charParser inp n res \<Longrightarrow> charParser n = Some (Success n' s v) \<Longrightarrow>
     take0_calls charParser inp n' (res @ v)"





text \<open>
  Two parsers used as examples: each fails, with an error of its own, where the text does
  not continue with the character it expects.
\<close>

definition expect_a :: "(string, string) Parser" where
  "expect_a = required (exact ''a'') (\<lambda>_. ''expected a'')"

definition expect_comma :: "(string, string) Parser" where
  "expect_comma = required (exact '','') (\<lambda>_. ''expected comma'')"

section \<open>Lemmas about the loops\<close>

lemmas eval_defs = expect_a_def expect_comma_def required_def exact_def input_def

lemma take0_calls_loop:
  "take0_calls charParser inp n res \<Longrightarrow> take0 charParser inp = take0_loop charParser inp n res"
proof (induction rule: take0_calls.induct)
  case first_char
  show ?case by (simp add: take0_def)
next
  case (next_char n res n' s v)
  then show ?case by (subst (asm) take0_loop.simps) simp
qed

lemma manySep0_calls_loop:
  "manySep0_calls_item item sep inp n items \<Longrightarrow>
     manySep0 item sep inp =
       (case item n of
          None \<Rightarrow> None
        | Some Undefined \<Rightarrow>
            Some (Success n \<lparr>code = ParseInput.code inp, start = index inp, end' = index n\<rparr> items)
        | Some (Error i e) \<Rightarrow> Some (Error i e)
        | Some (Success i s v) \<Rightarrow> manySep0_loop item sep inp i (items @ [v]))"
  "manySep0_calls_sep item sep inp n items \<Longrightarrow>
     manySep0 item sep inp = manySep0_loop item sep inp n items \<and> items \<noteq> [] \<and> sep \<noteq> None"
proof (induction rule: manySep0_calls_item_manySep0_calls_sep.inducts)
  case first_item
  show ?case by (simp add: manySep0_def manySep0_loop.simps [of item sep inp inp "[]"])
next
  case (next_item n items n' s v)
  then show ?case
    by (simp add: manySep0_loop.simps [of item None inp n' "items @ [v]"]
          cong: option.case_cong ParseResult.case_cong)
next
  case (next_sep n items n' s v sp)
  then show ?case by simp
next
  case (item_after_sep n items sp n' s w)
  then show ?case
    by (simp add: manySep0_loop.simps [of item "Some sp" inp n items]
          cong: option.case_cong ParseResult.case_cong)
qed

lemma manySep0_loop_not_undefined:
  assumes "manySep0_loop item sep inp n items = Some r"
  shows "r \<noteq> Undefined"
  by (rule manySep0_loop.raw_induct [where P = "\<lambda>_ _ _ _ _ r. r \<noteq> Undefined", OF _ assms])
     (auto split: if_splits option.splits ParseResult.splits sum.splits)






lemma tuple_loop_matched:
  "matched_in_order ps c = Some (c', vs) \<Longrightarrow>
     tuple_loop (ps @ qs) inp c items = tuple_loop qs inp c' (items @ vs)"
proof (induction ps arbitrary: c items vs)
  case Nil
  then show ?case by simp
next
  case (Cons p ps)
  then show ?case
    by (auto split: option.splits ParseResult.splits)
qed

lemma tuple_loop_success:
  "tuple_loop ps inp c items = Some (Success n sp xs) \<Longrightarrow>
     \<exists>vs. matched_in_order ps c = Some (n, vs) \<and> xs = items @ vs \<and>
       sp = \<lparr>code = ParseInput.code inp, start = index inp, end' = index n\<rparr>"
proof (induction ps arbitrary: c items)
  case Nil
  then show ?case by auto
next
  case (Cons p ps)
  then show ?case
    by (fastforce split: option.splits ParseResult.splits)
qed

lemma oneOf_skip:
  "\<forall>p \<in> set ps. p c = Some Undefined \<Longrightarrow> oneOf (ps @ qs) c = oneOf qs c"
  by (induction ps) simp_all

lemma manySep0_no_item:
  "item c = Some Undefined \<Longrightarrow>
     manySep0 item sep c =
       Some (Success c \<lparr>code = ParseInput.code c, start = index c, end' = index c\<rparr> [])"
  by (simp add: manySep0_def manySep0_loop.simps [of item sep c c "[]"])

lemma filter_parser_error:
  "parser inp = Some (Error i e) \<Longrightarrow> filter_parser parser pred inp = Some (Error i e)"
  by (simp add: filter_parser_def)

lemma tuple_error:
  "matched_in_order ps inp = Some (c, vs) \<Longrightarrow> q c = Some (Error i e) \<Longrightarrow>
     tuple (ps @ q # qs) inp = Some (Error i e)"
  using tuple_loop_matched [of ps inp c vs "q # qs" inp "[]"] by (simp add: tuple_def)

lemma manySep0_item_error:
  "manySep0_calls_item item sep inp n items \<Longrightarrow> item n = Some (Error i e) \<Longrightarrow>
     manySep0 item sep inp = Some (Error i e)"
  using manySep0_calls_loop(1) [of item sep inp n items] by simp

lemma manySep0_sep_error:
  "manySep0_calls_sep item (Some sp) inp n items \<Longrightarrow> sp n = Some (Error i e) \<Longrightarrow>
     manySep0 item (Some sp) inp = Some (Error i e)"
  using manySep0_calls_loop(2) [of item "Some sp" inp n items]
  by (simp add: manySep0_loop.simps [of item "Some sp" inp n items])

lemma take0_char_error:
  "take0_calls charParser inp n res \<Longrightarrow> charParser n = Some (Error i e) \<Longrightarrow>
     take0 charParser inp = Some (Error i e)"
  using take0_calls_loop [of charParser inp n res]
  by (simp add: take0_loop.simps [of charParser inp n res])



section \<open>The other tests of \<^verbatim>\<open>src/deno_test.ts\<close>\<close>

text \<open>
  The grammar of the model gives the results that the tests \<^verbatim>\<open>JSON parser success\<close> and
  \<^verbatim>\<open>JSON parser error 1\<close> expect.
\<close>

lemmas json_defs = jsonDocument_def object_def array_def nil_def boolean_def number_def
  string_def commaWithWhitespace_def slot_def whitespace_def whitespaceChar_def numericChar_def
  whitespaceRegex_def numericRegex_def take1_def take0_def manySep0_def tuple_def
  map_parser_def filter_parser_def required_def optional_def nothing_def exact_def char_def
  input_def take0_loop.simps manySep0_loop.simps

lemma json_document_example:
  "jsonDocument 3
     (input ''{\"foo\":\"bar\",\"blah\":123.4,\"stuff\":true,\"other\":[1,2,null,false]}'') =
   Some (Success
     \<lparr>ParseInput.code =
        ''{\"foo\":\"bar\",\"blah\":123.4,\"stuff\":true,\"other\":[1,2,null,false]}'',
      index = 64\<rparr>
     \<lparr>code = ''{\"foo\":\"bar\",\"blah\":123.4,\"stuff\":true,\"other\":[1,2,null,false]}'',
      start = 0, end' = 64\<rparr>
     (JObj [(''foo'', JStr ''bar''), (''blah'', JNum ''123.4''), (''stuff'', JBool True),
            (''other'', JArr [JNum ''1'', JNum ''2'', JNull, JBool False])]))"
  by code_simp

lemma json_unterminated_string:
  "jsonDocument (Suc depth) (input ''\"foo'') =
     Some (Error \<lparr>ParseInput.code = ''\"foo'', index = 4\<rparr>
             (''Expected closing quote '' @ [CHR 0x27, CHR 0x22, CHR 0x27]))"
  by (simp add: json_defs)

section \<open>Properties\<close>

subsection \<open>Errors are handed on unchanged\<close>

text \<open>
  C1. An error result of a parser that a combinator calls is the result of the combinator,
  with the same input and the same error: for \<open>map_parser\<close>, \<open>filter_parser\<close>,
  \<open>required\<close> and \<open>optional\<close> when their parser returns the error; for \<open>oneOf\<close> when
  the alternatives before it returned \<^verbatim>\<open>undefined\<close>, whatever the later alternatives are;
  for \<open>tuple\<close> when the pieces before it succeeded in order, whatever the later pieces are;
  for \<open>manySep0\<close>, \<open>manySep1\<close>, \<open>many0\<close> and \<open>many1\<close> at any call of the item or
  of the separator that the run makes; for \<open>take0\<close> and \<open>take1\<close> at any call of the
  character parser that the run makes. No items accumulated before the error are kept.
\<close>

theorem failed_propagates:
  "(parser inp = Some (Error i e) \<longrightarrow> map_parser parser fn inp = Some (Error i e)) \<and>
   (parser inp = Some (Error i e) \<longrightarrow> filter_parser parser pred inp = Some (Error i e)) \<and>
   (parser inp = Some (Error i e) \<longrightarrow> required parser error inp = Some (Error i e)) \<and>
   (parser inp = Some (Error i e) \<longrightarrow> optional parser inp = Some (Error i e)) \<and>
   ((\<forall>p \<in> set ps. p inp = Some Undefined) \<and> q inp = Some (Error i e) \<longrightarrow>
      oneOf (ps @ q # qs) inp = Some (Error i e)) \<and>
   (matched_in_order ps inp = Some (c, vs) \<and> q c = Some (Error i e) \<longrightarrow>
      tuple (ps @ q # qs) inp = Some (Error i e)) \<and>
   (manySep0_calls_item item sep inp n items \<and> item n = Some (Error i e) \<longrightarrow>
      manySep0 item sep inp = Some (Error i e) \<and> manySep1 item sep inp = Some (Error i e)) \<and>
   (manySep0_calls_sep item (Some sp) inp n items \<and> sp n = Some (Error i e) \<longrightarrow>
      manySep0 item (Some sp) inp = Some (Error i e) \<and>
      manySep1 item (Some sp) inp = Some (Error i e)) \<and>
   (manySep0_calls_item item (None :: (unit, 'e) Parser option) inp n items \<and>
    item n = Some (Error i e) \<longrightarrow>
      many0 item inp = Some (Error i e) \<and> many1 item inp = Some (Error i e)) \<and>
   (take0_calls charParser inp m res \<and> charParser m = Some (Error i e) \<longrightarrow>
      take0 charParser inp = Some (Error i e) \<and> take1 charParser inp = Some (Error i e))"
  by (intro conjI impI; (elim conjE)?)
     (simp_all add: map_parser_def required_def optional_def filter_parser_error oneOf_skip
        tuple_error manySep0_item_error manySep0_sep_error take0_char_error
        manySep1_def many0_def many1_def take1_def)

theorem failed_propagates_witness:
  "expect_a (input ''b'') = Some (Error (input ''b'') ''expected a'') \<and>
   map_parser expect_a (\<lambda>v s. v @ v) (input ''b'') = Some (Error (input ''b'') ''expected a'') \<and>
   filter_parser expect_a (\<lambda>v. False) (input ''b'') = Some (Error (input ''b'') ''expected a'') \<and>
   required expect_a (\<lambda>c. ''outer'') (input ''b'') = Some (Error (input ''b'') ''expected a'') \<and>
   optional expect_a (input ''b'') = Some (Error (input ''b'') ''expected a'') \<and>
   exact ''c'' (input ''b'') = (Some Undefined :: (string, string) ParseResult option) \<and>
   oneOf [exact ''c'', expect_a, exact ''b''] (input ''b'')
     = Some (Error (input ''b'') ''expected a'') \<and>
   matched_in_order [exact ''b'' :: (string, string) Parser] (input ''bc'')
     = Some (\<lparr>ParseInput.code = ''bc'', index = 1\<rparr>, [''b'']) \<and>
   expect_a \<lparr>ParseInput.code = ''bc'', index = 1\<rparr>
     = Some (Error \<lparr>ParseInput.code = ''bc'', index = 1\<rparr> ''expected a'') \<and>
   tuple [exact ''b'', expect_a, exact ''c''] (input ''bc'')
     = Some (Error \<lparr>ParseInput.code = ''bc'', index = 1\<rparr> ''expected a'') \<and>
   manySep0_calls_item expect_a (Some (exact '','' :: (string, string) Parser)) (input ''a,b'')
     \<lparr>ParseInput.code = ''a,b'', index = 2\<rparr> [''a''] \<and>
   expect_a \<lparr>ParseInput.code = ''a,b'', index = 2\<rparr>
     = Some (Error \<lparr>ParseInput.code = ''a,b'', index = 2\<rparr> ''expected a'') \<and>
   manySep0 expect_a (Some (exact '','' :: (string, string) Parser)) (input ''a,b'')
     = Some (Error \<lparr>ParseInput.code = ''a,b'', index = 2\<rparr> ''expected a'') \<and>
   manySep1 expect_a (Some (exact '','' :: (string, string) Parser)) (input ''a,b'')
     = Some (Error \<lparr>ParseInput.code = ''a,b'', index = 2\<rparr> ''expected a'') \<and>
   manySep0_calls_sep (exact ''a'') (Some expect_comma) (input ''ab'')
     \<lparr>ParseInput.code = ''ab'', index = 1\<rparr> [''a''] \<and>
   expect_comma \<lparr>ParseInput.code = ''ab'', index = 1\<rparr>
     = Some (Error \<lparr>ParseInput.code = ''ab'', index = 1\<rparr> ''expected comma'') \<and>
   manySep0 (exact ''a'') (Some expect_comma) (input ''ab'')
     = Some (Error \<lparr>ParseInput.code = ''ab'', index = 1\<rparr> ''expected comma'') \<and>
   manySep1 (exact ''a'') (Some expect_comma) (input ''ab'')
     = Some (Error \<lparr>ParseInput.code = ''ab'', index = 1\<rparr> ''expected comma'') \<and>
   manySep0_calls_item expect_a (None :: (unit, string) Parser option) (input ''ab'')
     \<lparr>ParseInput.code = ''ab'', index = 1\<rparr> [''a''] \<and>
   expect_a \<lparr>ParseInput.code = ''ab'', index = 1\<rparr>
     = Some (Error \<lparr>ParseInput.code = ''ab'', index = 1\<rparr> ''expected a'') \<and>
   many0 expect_a (input ''ab'')
     = Some (Error \<lparr>ParseInput.code = ''ab'', index = 1\<rparr> ''expected a'') \<and>
   many1 expect_a (input ''ab'')
     = Some (Error \<lparr>ParseInput.code = ''ab'', index = 1\<rparr> ''expected a'') \<and>
   take0_calls expect_a (input ''ab'') \<lparr>ParseInput.code = ''ab'', index = 1\<rparr> ''a'' \<and>
   take0 expect_a (input ''ab'')
     = Some (Error \<lparr>ParseInput.code = ''ab'', index = 1\<rparr> ''expected a'') \<and>
   take1 expect_a (input ''ab'')
     = Some (Error \<lparr>ParseInput.code = ''ab'', index = 1\<rparr> ''expected a'')"
proof -
  let ?comma = "Some (exact '','' :: (string, string) Parser)"
  let ?none = "None :: (unit, string) Parser option"
  let ?b = "input ''b''"
  let ?bc1 = "\<lparr>ParseInput.code = ''bc'', index = 1\<rparr>"
  let ?ab1 = "\<lparr>ParseInput.code = ''ab'', index = 1\<rparr>"
  let ?acb1 = "\<lparr>ParseInput.code = ''a,b'', index = 1\<rparr>"
  let ?acb2 = "\<lparr>ParseInput.code = ''a,b'', index = 2\<rparr>"
  have e1: "expect_a ?b = Some (Error ?b ''expected a'')"
    by (simp add: eval_defs)
  note single = failed_propagates [where parser = expect_a and inp = ?b and i = ?b
      and e = "''expected a''"]
  have s1: "map_parser expect_a (\<lambda>v s. v @ v) ?b = Some (Error ?b ''expected a'')"
    using single [where fn = "\<lambda>v s. v @ v", THEN conjunct1] e1 by simp
  have s2: "filter_parser expect_a (\<lambda>v. False) ?b = Some (Error ?b ''expected a'')"
    using single [where pred = "\<lambda>v. False", THEN conjunct2, THEN conjunct1] e1 by simp
  have s3: "required expect_a (\<lambda>c. ''outer'') ?b = Some (Error ?b ''expected a'')"
    using single [where error = "\<lambda>c. ''outer''", THEN conjunct2, THEN conjunct2, THEN conjunct1]
      e1 by simp
  have s4: "optional expect_a ?b = Some (Error ?b ''expected a'')"
    using single [THEN conjunct2, THEN conjunct2, THEN conjunct2, THEN conjunct1] e1 by simp
  have c0: "exact ''c'' ?b = (Some Undefined :: (string, string) ParseResult option)"
    by (simp add: eval_defs)
  have s5: "oneOf [exact ''c'', expect_a, exact ''b''] ?b = Some (Error ?b ''expected a'')"
    using failed_propagates [where ps = "[exact ''c'']" and q = expect_a and qs = "[exact ''b'']"
        and inp = ?b and i = ?b and e = "''expected a''",
        THEN conjunct2, THEN conjunct2, THEN conjunct2, THEN conjunct2, THEN conjunct1] c0 e1
    by simp
  have m6: "matched_in_order [exact ''b'' :: (string, string) Parser] (input ''bc'')
      = Some (?bc1, [''b''])"
    by (simp add: eval_defs)
  have e6: "expect_a ?bc1 = Some (Error ?bc1 ''expected a'')"
    by (simp add: eval_defs)
  have s6: "tuple [exact ''b'', expect_a, exact ''c''] (input ''bc'')
      = Some (Error ?bc1 ''expected a'')"
    using failed_propagates [where ps = "[exact ''b'']" and q = expect_a and qs = "[exact ''c'']"
        and inp = "input ''bc''" and c = ?bc1 and vs = "[''b'']" and i = ?bc1
        and e = "''expected a''",
        THEN conjunct2, THEN conjunct2, THEN conjunct2, THEN conjunct2, THEN conjunct2,
        THEN conjunct1] m6 e6
    by simp
  have "manySep0_calls_sep expect_a ?comma (input ''a,b'') ?acb1 ([] @ [''a''])"
    by (rule next_sep [OF first_item _ refl]) (simp add: eval_defs)
  then have "manySep0_calls_item expect_a ?comma (input ''a,b'') ?acb2 ([] @ [''a''])"
    by (rule item_after_sep [OF _ refl]) (simp add: eval_defs)
  then have c7: "manySep0_calls_item expect_a ?comma (input ''a,b'') ?acb2 [''a'']"
    by simp
  have e7: "expect_a ?acb2 = Some (Error ?acb2 ''expected a'')"
    by (simp add: eval_defs)
  have s7: "manySep0 expect_a ?comma (input ''a,b'') = Some (Error ?acb2 ''expected a'') \<and>
      manySep1 expect_a ?comma (input ''a,b'') = Some (Error ?acb2 ''expected a'')"
    using failed_propagates [where item = expect_a and sep = ?comma and inp = "input ''a,b''"
        and n = ?acb2 and items = "[''a'']" and i = ?acb2 and e = "''expected a''",
        THEN conjunct2, THEN conjunct2, THEN conjunct2, THEN conjunct2, THEN conjunct2,
        THEN conjunct2, THEN conjunct1] c7 e7
    by simp
  have "manySep0_calls_sep (exact ''a'') (Some expect_comma) (input ''ab'') ?ab1 ([] @ [''a''])"
    by (rule next_sep [OF first_item _ refl]) (simp add: eval_defs)
  then have c8: "manySep0_calls_sep (exact ''a'') (Some expect_comma) (input ''ab'') ?ab1 [''a'']"
    by simp
  have e8: "expect_comma ?ab1 = Some (Error ?ab1 ''expected comma'')"
    by (simp add: eval_defs)
  have s8: "manySep0 (exact ''a'') (Some expect_comma) (input ''ab'')
        = Some (Error ?ab1 ''expected comma'') \<and>
      manySep1 (exact ''a'') (Some expect_comma) (input ''ab'')
        = Some (Error ?ab1 ''expected comma'')"
    using failed_propagates [where item = "exact ''a''" and sp = expect_comma
        and inp = "input ''ab''" and n = ?ab1 and items = "[''a'']" and i = ?ab1
        and e = "''expected comma''",
        THEN conjunct2, THEN conjunct2, THEN conjunct2, THEN conjunct2, THEN conjunct2,
        THEN conjunct2, THEN conjunct2, THEN conjunct1] c8 e8
    by simp
  have "manySep0_calls_item expect_a ?none (input ''ab'') ?ab1 ([] @ [''a''])"
    by (rule next_item [OF first_item _ refl]) (simp add: eval_defs)
  then have c9: "manySep0_calls_item expect_a ?none (input ''ab'') ?ab1 [''a'']"
    by simp
  have e9: "expect_a ?ab1 = Some (Error ?ab1 ''expected a'')"
    by (simp add: eval_defs)
  have s9: "many0 expect_a (input ''ab'') = Some (Error ?ab1 ''expected a'') \<and>
      many1 expect_a (input ''ab'') = Some (Error ?ab1 ''expected a'')"
    using failed_propagates [where item = expect_a and inp = "input ''ab''" and n = ?ab1
        and items = "[''a'']" and i = ?ab1 and e = "''expected a''",
        THEN conjunct2, THEN conjunct2, THEN conjunct2, THEN conjunct2, THEN conjunct2,
        THEN conjunct2, THEN conjunct2, THEN conjunct2, THEN conjunct1] c9 e9
    by simp
  have "take0_calls expect_a (input ''ab'') ?ab1 ([] @ ''a'')"
    by (rule next_char [OF first_char]) (simp add: eval_defs)
  then have c10: "take0_calls expect_a (input ''ab'') ?ab1 ''a''"
    by simp
  have s10: "take0 expect_a (input ''ab'') = Some (Error ?ab1 ''expected a'') \<and>
      take1 expect_a (input ''ab'') = Some (Error ?ab1 ''expected a'')"
    using failed_propagates [where charParser = expect_a and inp = "input ''ab''" and m = ?ab1
        and res = "''a''" and i = ?ab1 and e = "''expected a''",
        THEN conjunct2, THEN conjunct2, THEN conjunct2, THEN conjunct2, THEN conjunct2,
        THEN conjunct2, THEN conjunct2, THEN conjunct2, THEN conjunct2] c10 e9
    by simp
  from e1 s1 s2 s3 s4 c0 s5 m6 e6 s6 c7 e7 s7 c8 e8 s8 c9 e9 s9 c10 s10
  show ?thesis by (intro conjI) simp_all
qed

subsection \<open>\<^verbatim>\<open>tuple\<close>\<close>

text \<open>
  C2. \<open>tuple\<close> returns a success exactly when all pieces succeed in order, each from
  the input left by its predecessor; the value is then the list of the parsed values in
  order, the input is the one left by the last piece, and the span starts at the index of
  the initial input and ends at the index of the input left by the last piece. When the
  pieces before some piece succeed in order and that piece returns \<^verbatim>\<open>undefined\<close> or an
  error, \<open>tuple\<close> returns that result.
\<close>

theorem tuple_spec:
  "(tuple ps c = Some (Success n sp vs) \<longleftrightarrow>
      matched_in_order ps c = Some (n, vs) \<and>
      sp = \<lparr>code = ParseInput.code c, start = index c, end' = index n\<rparr>) \<and>
   (matched_in_order ps c = Some (c', ws) \<and> q c' = Some Undefined \<longrightarrow>
      tuple (ps @ q # qs) c = Some Undefined) \<and>
   (matched_in_order ps c = Some (c', ws) \<and> q c' = Some (Error i e) \<longrightarrow>
      tuple (ps @ q # qs) c = Some (Error i e))"
proof (intro conjI impI iffI; (elim conjE)?)
  assume "tuple ps c = Some (Success n sp vs)"
  from tuple_loop_success [OF this [unfolded tuple_def]]
  show "matched_in_order ps c = Some (n, vs)"
    and "sp = \<lparr>code = ParseInput.code c, start = index c, end' = index n\<rparr>"
    by auto
next
  assume "matched_in_order ps c = Some (n, vs)"
    and "sp = \<lparr>code = ParseInput.code c, start = index c, end' = index n\<rparr>"
  with tuple_loop_matched [of ps c n vs "[]" c "[]"]
  show "tuple ps c = Some (Success n sp vs)"
    by (simp add: tuple_def)
next
  assume "matched_in_order ps c = Some (c', ws)" and "q c' = Some Undefined"
  with tuple_loop_matched [of ps c c' ws "q # qs" c "[]"]
  show "tuple (ps @ q # qs) c = Some Undefined"
    by (simp add: tuple_def)
next
  assume "matched_in_order ps c = Some (c', ws)" and "q c' = Some (Error i e)"
  with tuple_loop_matched [of ps c c' ws "q # qs" c "[]"]
  show "tuple (ps @ q # qs) c = Some (Error i e)"
    by (simp add: tuple_def)
qed

theorem tuple_spec_witness:
  "matched_in_order [exact ''a'', exact ''b'' :: (string, string) Parser] (input ''abc'')
     = Some (\<lparr>ParseInput.code = ''abc'', index = 2\<rparr>, [''a'', ''b'']) \<and>
   tuple [exact ''a'', exact ''b'' :: (string, string) Parser] (input ''abc'')
     = Some (Success \<lparr>ParseInput.code = ''abc'', index = 2\<rparr>
               \<lparr>code = ''abc'', start = 0, end' = 2\<rparr> [''a'', ''b'']) \<and>
   exact ''x'' \<lparr>ParseInput.code = ''abc'', index = 2\<rparr>
     = (Some Undefined :: (string, string) ParseResult option) \<and>
   tuple [exact ''a'', exact ''b'', exact ''x'', exact ''c'' :: (string, string) Parser]
     (input ''abc'') = Some Undefined \<and>
   expect_a \<lparr>ParseInput.code = ''abc'', index = 2\<rparr>
     = Some (Error \<lparr>ParseInput.code = ''abc'', index = 2\<rparr> ''expected a'') \<and>
   tuple [exact ''a'', exact ''b'', expect_a, exact ''c''] (input ''abc'')
     = Some (Error \<lparr>ParseInput.code = ''abc'', index = 2\<rparr> ''expected a'')"
proof -
  let ?ab = "[exact ''a'', exact ''b'' :: (string, string) Parser]"
  let ?c2 = "\<lparr>ParseInput.code = ''abc'', index = 2\<rparr>"
  have m: "matched_in_order ?ab (input ''abc'') = Some (?c2, [''a'', ''b''])"
    by (simp add: eval_defs)
  have u: "exact ''x'' ?c2 = (Some Undefined :: (string, string) ParseResult option)"
    by (simp add: eval_defs)
  have e: "expect_a ?c2 = Some (Error ?c2 ''expected a'')"
    by (simp add: eval_defs)
  have t1: "tuple ?ab (input ''abc'')
      = Some (Success ?c2 \<lparr>code = ''abc'', start = 0, end' = 2\<rparr> [''a'', ''b''])"
    using tuple_spec [where ps = ?ab and c = "input ''abc''" and n = ?c2
        and sp = "\<lparr>code = ''abc'', start = 0, end' = 2\<rparr>" and vs = "[''a'', ''b'']",
        THEN conjunct1] m
    by (simp add: input_def)
  have t2: "tuple (?ab @ exact ''x'' # [exact ''c'']) (input ''abc'') = Some Undefined"
    using tuple_spec [where ps = ?ab and c = "input ''abc''" and c' = ?c2
        and ws = "[''a'', ''b'']" and q = "exact ''x''" and qs = "[exact ''c'']",
        THEN conjunct2, THEN conjunct1] m u
    by simp
  have t3: "tuple (?ab @ expect_a # [exact ''c'']) (input ''abc'')
      = Some (Error ?c2 ''expected a'')"
    using tuple_spec [where ps = ?ab and c = "input ''abc''" and c' = ?c2
        and ws = "[''a'', ''b'']" and q = expect_a and qs = "[exact ''c'']" and i = ?c2
        and e = "''expected a''",
        THEN conjunct2, THEN conjunct2] m e
    by simp
  from m u e t1 t2 t3 show ?thesis by simp
qed

subsection \<open>\<^verbatim>\<open>oneOf\<close>\<close>

text \<open>
  C3. \<open>oneOf\<close> runs the alternatives in order at the same input and returns the first
  result that is a success or an error, whatever the alternatives after it are (they may
  match, or not return at all); when every alternative returns \<^verbatim>\<open>undefined\<close>, and so
  when there is none, \<open>oneOf\<close> returns \<^verbatim>\<open>undefined\<close>.
\<close>

theorem oneOf_spec:
  "((\<forall>p \<in> set ps. p c = Some Undefined) \<and> q c = Some r \<and> r \<noteq> Undefined \<longrightarrow>
      oneOf (ps @ q # qs) c = Some r) \<and>
   ((\<forall>p \<in> set ps. p c = Some Undefined) \<longrightarrow> oneOf ps c = Some Undefined) \<and>
   oneOf [] c = Some Undefined"
proof (intro conjI impI)
  assume "(\<forall>p \<in> set ps. p c = Some Undefined) \<and> q c = Some r \<and> r \<noteq> Undefined"
  then show "oneOf (ps @ q # qs) c = Some r"
    by (cases r) (simp_all add: oneOf_skip)
next
  assume "\<forall>p \<in> set ps. p c = Some Undefined"
  from oneOf_skip [OF this, of "[]"] show "oneOf ps c = Some Undefined" by simp
next
  show "oneOf [] c = Some Undefined" by simp
qed

theorem oneOf_spec_witness:
  "exact ''x'' (input ''ab'') = (Some Undefined :: (string, string) ParseResult option) \<and>
   exact ''a'' (input ''ab'')
     = (Some (Success \<lparr>ParseInput.code = ''ab'', index = 1\<rparr>
               \<lparr>code = ''ab'', start = 0, end' = 1\<rparr> ''a'')
        :: (string, string) ParseResult option) \<and>
   exact ''ab'' (input ''ab'')
     = (Some (Success \<lparr>ParseInput.code = ''ab'', index = 2\<rparr>
               \<lparr>code = ''ab'', start = 0, end' = 2\<rparr> ''ab'')
        :: (string, string) ParseResult option) \<and>
   oneOf [exact ''x'', exact ''a'', exact ''ab'' :: (string, string) Parser] (input ''ab'')
     = Some (Success \<lparr>ParseInput.code = ''ab'', index = 1\<rparr>
               \<lparr>code = ''ab'', start = 0, end' = 1\<rparr> ''a'') \<and>
   oneOf [exact ''x'', exact ''a'', (\<lambda>c. None)  :: (string, string) Parser] (input ''ab'')
     = Some (Success \<lparr>ParseInput.code = ''ab'', index = 1\<rparr>
               \<lparr>code = ''ab'', start = 0, end' = 1\<rparr> ''a'') \<and>
   exact ''y'' (input ''ab'') = (Some Undefined :: (string, string) ParseResult option) \<and>
   oneOf [exact ''x'', exact ''y'' :: (string, string) Parser] (input ''ab'') = Some Undefined"
proof -
  let ?r = "Success \<lparr>ParseInput.code = ''ab'', index = 1\<rparr>
      \<lparr>code = ''ab'', start = 0, end' = 1\<rparr> ''a'' :: (string, string) ParseResult"
  have x: "exact ''x'' (input ''ab'') = (Some Undefined :: (string, string) ParseResult option)"
    and y: "exact ''y'' (input ''ab'') = (Some Undefined :: (string, string) ParseResult option)"
    and a: "exact ''a'' (input ''ab'') = Some ?r"
    and ab: "exact ''ab'' (input ''ab'')
     = (Some (Success \<lparr>ParseInput.code = ''ab'', index = 2\<rparr>
               \<lparr>code = ''ab'', start = 0, end' = 2\<rparr> ''ab'')
        :: (string, string) ParseResult option)"
    by (simp_all add: eval_defs)
  have o1: "oneOf ([exact ''x''] @ exact ''a'' # [exact ''ab'']) (input ''ab'') = Some ?r"
    using oneOf_spec [where ps = "[exact ''x'']" and q = "exact ''a''" and qs = "[exact ''ab'']"
        and c = "input ''ab''" and r = ?r, THEN conjunct1] x a
    by simp
  have o2: "oneOf ([exact ''x''] @ exact ''a'' # [\<lambda>c. None]) (input ''ab'') = Some ?r"
    using oneOf_spec [where ps = "[exact ''x'']" and q = "exact ''a''" and qs = "[\<lambda>c. None]"
        and c = "input ''ab''" and r = ?r, THEN conjunct1] x a
    by simp
  have o3: "oneOf [exact ''x'', exact ''y'' :: (string, string) Parser] (input ''ab'')
      = Some Undefined"
    using oneOf_spec [where ps = "[exact ''x'', exact ''y'' :: (string, string) Parser]"
        and c = "input ''ab''", THEN conjunct2, THEN conjunct1] x y
    by simp
  from x y a ab o1 o2 o3 show ?thesis by simp
qed

subsection \<open>\<^verbatim>\<open>required\<close>\<close>

text \<open>
  C4. If the parser returns \<^verbatim>\<open>undefined\<close> at an input, \<open>required\<close> returns the
  error result whose input is that very input and whose error is the error factory applied
  to it; a success or an error of the parser is returned unchanged.
\<close>

theorem required_spec:
  "(parser inp = Some Undefined \<longrightarrow>
      required parser error inp = Some (Error inp (error inp))) \<and>
   (parser inp = Some (Success i s v) \<longrightarrow>
      required parser error inp = Some (Success i s v)) \<and>
   (parser inp = Some (Error i e) \<longrightarrow>
      required parser error inp = Some (Error i e))"
  by (simp add: required_def)

theorem required_spec_witness:
  "(exact ''a'' :: (string, string) Parser) (input ''b'') = Some Undefined \<and>
   required (exact ''a'') (\<lambda>c. ''expected a'') (input ''b'')
     = Some (Error (input ''b'') ''expected a'') \<and>
   (exact ''a'' :: (string, string) Parser) (input ''a'')
     = Some (Success \<lparr>ParseInput.code = ''a'', index = 1\<rparr>
              \<lparr>code = ''a'', start = 0, end' = 1\<rparr> ''a'') \<and>
   required (exact ''a'') (\<lambda>c. ''expected a'') (input ''a'')
     = Some (Success \<lparr>ParseInput.code = ''a'', index = 1\<rparr>
              \<lparr>code = ''a'', start = 0, end' = 1\<rparr> ''a'') \<and>
   required (required (exact ''a'') (\<lambda>c. ''expected a'')) (\<lambda>c. ''outer'') (input ''b'')
     = Some (Error (input ''b'') ''expected a'')"
proof -
  let ?f = "\<lambda>c :: ParseInput. ''expected a''"
  have h1: "exact ''a'' (input ''b'') = (Some Undefined :: (string, string) ParseResult option)"
    by (simp add: exact_def input_def)
  have h2: "exact ''a'' (input ''a'')
     = (Some (Success \<lparr>ParseInput.code = ''a'', index = 1\<rparr>
              \<lparr>code = ''a'', start = 0, end' = 1\<rparr> ''a'') :: (string, string) ParseResult option)"
    by (simp add: exact_def input_def)
  note r1 = required_spec [where parser = "exact ''a''" and inp = "input ''b''" and error = ?f,
      THEN conjunct1, rule_format, OF h1]
  note r2 = required_spec [where parser = "exact ''a''" and inp = "input ''a''" and error = ?f,
      THEN conjunct2, THEN conjunct1, rule_format, OF h2]
  note r3 = required_spec [where parser = "required (exact ''a'') ?f" and inp = "input ''b''"
      and error = "\<lambda>c. ''outer''", THEN conjunct2, THEN conjunct2, rule_format, OF r1]
  from h1 h2 r1 r2 r3 show ?thesis by simp
qed

subsection \<open>\<^verbatim>\<open>optional\<close>\<close>

text \<open>
  C5. If the parser returns \<^verbatim>\<open>undefined\<close> at an input, \<open>optional\<close> returns a
  success whose input is that very input, whose span is empty at its index and whose value
  is the absent value \<open>None\<close>; a success of the parser is returned with its input, its
  span and its value, and an error of the parser is returned unchanged. An error returned
  by \<open>optional\<close> is always the error of its parser.
\<close>

theorem optional_spec:
  "(parser inp = Some Undefined \<longrightarrow>
      optional parser inp =
        Some (Success inp
          \<lparr>code = ParseInput.code inp, start = index inp, end' = index inp\<rparr> None)) \<and>
   (parser inp = Some (Success i s v) \<longrightarrow>
      optional parser inp = Some (Success i s (Some v))) \<and>
   (parser inp = Some (Error i e) \<longrightarrow> optional parser inp = Some (Error i e)) \<and>
   (optional parser inp = Some (Error i e) \<longrightarrow> parser inp = Some (Error i e))"
  by (auto simp: optional_def nothing_def split: option.splits ParseResult.splits)

theorem optional_spec_witness:
  "exact ''a'' (input ''b'') = (Some Undefined :: (string, string) ParseResult option) \<and>
   optional (exact ''a'' :: (string, string) Parser) (input ''b'')
     = Some (Success (input ''b'') \<lparr>code = ''b'', start = 0, end' = 0\<rparr> None) \<and>
   exact ''b'' (input ''b'')
     = (Some (Success \<lparr>ParseInput.code = ''b'', index = 1\<rparr>
               \<lparr>code = ''b'', start = 0, end' = 1\<rparr> ''b'')
        :: (string, string) ParseResult option) \<and>
   optional (exact ''b'' :: (string, string) Parser) (input ''b'')
     = Some (Success \<lparr>ParseInput.code = ''b'', index = 1\<rparr>
               \<lparr>code = ''b'', start = 0, end' = 1\<rparr> (Some ''b'')) \<and>
   expect_a (input ''b'') = Some (Error (input ''b'') ''expected a'') \<and>
   optional expect_a (input ''b'') = Some (Error (input ''b'') ''expected a'')"
proof -
  have u: "exact ''a'' (input ''b'') = (Some Undefined :: (string, string) ParseResult option)"
    and s: "exact ''b'' (input ''b'')
     = (Some (Success \<lparr>ParseInput.code = ''b'', index = 1\<rparr>
               \<lparr>code = ''b'', start = 0, end' = 1\<rparr> ''b'')
        :: (string, string) ParseResult option)"
    and e: "expect_a (input ''b'') = Some (Error (input ''b'') ''expected a'')"
    by (simp_all add: eval_defs)
  have o1: "optional (exact ''a'' :: (string, string) Parser) (input ''b'')
     = Some (Success (input ''b'') \<lparr>code = ''b'', start = 0, end' = 0\<rparr> None)"
    using optional_spec [where parser = "exact ''a'' :: (string, string) Parser"
        and inp = "input ''b''", THEN conjunct1] u
    by (simp add: input_def)
  have o2: "optional (exact ''b'' :: (string, string) Parser) (input ''b'')
     = Some (Success \<lparr>ParseInput.code = ''b'', index = 1\<rparr>
               \<lparr>code = ''b'', start = 0, end' = 1\<rparr> (Some ''b''))"
    using optional_spec [where parser = "exact ''b'' :: (string, string) Parser"
        and inp = "input ''b''", THEN conjunct2, THEN conjunct1, rule_format, OF s] .
  have o3: "optional expect_a (input ''b'') = Some (Error (input ''b'') ''expected a'')"
    using optional_spec [where parser = expect_a and inp = "input ''b''",
        THEN conjunct2, THEN conjunct2, THEN conjunct1] e
    by simp
  have o4: "expect_a (input ''b'') = Some (Error (input ''b'') ''expected a'')"
    using optional_spec [where parser = expect_a and inp = "input ''b''",
        THEN conjunct2, THEN conjunct2, THEN conjunct2] o3
    by simp
  from u s o1 o2 o3 o4 show ?thesis by simp
qed

subsection \<open>\<^verbatim>\<open>filter\<close>\<close>

text \<open>
  C6. If the parser succeeds with a value that the predicate rejects, \<open>filter_parser\<close>
  returns \<^verbatim>\<open>undefined\<close>, which carries no input: an alternative tried next by
  \<open>oneOf\<close> runs at the original input. A success whose value the predicate accepts, an
  \<^verbatim>\<open>undefined\<close> and an error of the parser are returned unchanged.
\<close>

theorem filter_spec:
  "(parser inp = Some (Success i s v) \<and> \<not> pred v \<longrightarrow>
      filter_parser parser pred inp = Some Undefined \<and>
      oneOf [filter_parser parser pred, q] inp = q inp) \<and>
   (parser inp = Some (Success i s v) \<and> pred v \<longrightarrow>
      filter_parser parser pred inp = Some (Success i s v)) \<and>
   (parser inp = Some Undefined \<longrightarrow> filter_parser parser pred inp = Some Undefined) \<and>
   (parser inp = Some (Error i e) \<longrightarrow> filter_parser parser pred inp = Some (Error i e))"
  by (auto simp: filter_parser_def split: option.splits ParseResult.splits)

theorem filter_spec_witness:
  "char (input ''7x'')
     = (Some (Success \<lparr>ParseInput.code = ''7x'', index = 1\<rparr>
               \<lparr>code = ''7x'', start = 0, end' = 1\<rparr> ''7'')
        :: (string, string) ParseResult option) \<and>
   \<not> list_ex alphaRegex ''7'' \<and>
   filter_parser char (list_ex alphaRegex) (input ''7x'')
     = (Some Undefined :: (string, string) ParseResult option) \<and>
   oneOf [filter_parser char (list_ex alphaRegex), (char :: (string, string) Parser)]
     (input ''7x'') = char (input ''7x'') \<and>
   list_ex numericRegex ''7'' \<and>
   filter_parser char (list_ex numericRegex) (input ''7x'')
     = (Some (Success \<lparr>ParseInput.code = ''7x'', index = 1\<rparr>
               \<lparr>code = ''7x'', start = 0, end' = 1\<rparr> ''7'')
        :: (string, string) ParseResult option) \<and>
   char (input []) = (Some Undefined :: (string, string) ParseResult option) \<and>
   filter_parser char (list_ex numericRegex) (input [])
     = (Some Undefined :: (string, string) ParseResult option) \<and>
   expect_a (input ''7x'') = Some (Error (input ''7x'') ''expected a'') \<and>
   filter_parser expect_a (\<lambda>v. True) (input ''7x'')
     = Some (Error (input ''7x'') ''expected a'')"
proof -
  let ?r = "Success \<lparr>ParseInput.code = ''7x'', index = 1\<rparr>
      \<lparr>code = ''7x'', start = 0, end' = 1\<rparr> ''7'' :: (string, string) ParseResult"
  have c: "char (input ''7x'') = Some ?r"
    and n: "char (input []) = (Some Undefined :: (string, string) ParseResult option)"
    and e: "expect_a (input ''7x'') = Some (Error (input ''7x'') ''expected a'')"
    and p1: "\<not> list_ex alphaRegex ''7''" and p2: "list_ex numericRegex ''7''"
    by (simp_all add: eval_defs char_def alphaRegex_def numericRegex_def)
  have f1: "filter_parser char (list_ex alphaRegex) (input ''7x'')
        = (Some Undefined :: (string, string) ParseResult option) \<and>
      oneOf [filter_parser char (list_ex alphaRegex), (char :: (string, string) Parser)]
        (input ''7x'') = char (input ''7x'')"
    using filter_spec [where parser = "char :: (string, string) Parser" and pred = "list_ex alphaRegex"
        and inp = "input ''7x''" and q = "char :: (string, string) Parser", THEN conjunct1, rule_format, OF conjI [OF c p1]] .
  have f2: "filter_parser char (list_ex numericRegex) (input ''7x'') = Some ?r"
    using filter_spec [where parser = "char :: (string, string) Parser" and pred = "list_ex numericRegex"
        and inp = "input ''7x''", THEN conjunct2, THEN conjunct1, rule_format,
        OF conjI [OF c p2]] .
  have f3: "filter_parser char (list_ex numericRegex) (input [])
      = (Some Undefined :: (string, string) ParseResult option)"
    using filter_spec [where parser = "char :: (string, string) Parser" and pred = "list_ex numericRegex"
        and inp = "input []", THEN conjunct2, THEN conjunct2, THEN conjunct1] n
    by simp
  have f4: "filter_parser expect_a (\<lambda>v. True) (input ''7x'')
      = Some (Error (input ''7x'') ''expected a'')"
    using filter_spec [where parser = expect_a and pred = "\<lambda>v. True"
        and inp = "input ''7x''", THEN conjunct2, THEN conjunct2, THEN conjunct2] e
    by simp
  from c n e p1 p2 f1 f2 f3 f4 show ?thesis by (intro conjI) (simp_all del: oneOf.simps)
qed

subsection \<open>Repetition with no item\<close>

text \<open>
  C7. When the first call of the item returns \<^verbatim>\<open>undefined\<close>, \<open>manySep0\<close>
  returns a success with the empty list, the original input and the empty span at its
  index, while \<open>manySep1\<close> and \<open>many1\<close> return \<^verbatim>\<open>undefined\<close>. \<open>manySep0\<close> never
  returns \<^verbatim>\<open>undefined\<close>.
\<close>

theorem manySep0_zero_items:
  "(item c = Some Undefined \<longrightarrow>
      manySep0 item sep c =
        Some (Success c \<lparr>code = ParseInput.code c, start = index c, end' = index c\<rparr> [])) \<and>
   (item c = Some Undefined \<longrightarrow> manySep1 item sep c = Some Undefined) \<and>
   (item c = Some Undefined \<longrightarrow> many1 item c = Some Undefined) \<and>
   manySep0 item sep c \<noteq> Some Undefined"
proof -
  have never: "manySep0 item sep c \<noteq> Some Undefined"
    using manySep0_loop_not_undefined [of item sep c c "[]" Undefined]
    by (auto simp: manySep0_def)
  from never show ?thesis
    by (simp add: manySep1_def many1_def filter_parser_def manySep0_no_item)
qed

theorem manySep0_zero_items_witness:
  "exact ''a'' (input ''b'') = (Some Undefined :: (string, string) ParseResult option) \<and>
   manySep0 (exact ''a'') (Some (exact '','' :: (string, string) Parser)) (input ''b'')
     = Some (Success (input ''b'') \<lparr>code = ''b'', start = 0, end' = 0\<rparr> []) \<and>
   manySep1 (exact ''a'') (Some (exact '','' :: (string, string) Parser)) (input ''b'')
     = Some Undefined \<and>
   many1 (exact ''a'' :: (string, string) Parser) (input ''b'') = Some Undefined \<and>
   manySep0 (exact ''a'') (Some (exact '','' :: (string, string) Parser)) (input ''b'')
     \<noteq> Some Undefined"
proof -
  let ?a = "exact ''a'' :: (string, string) Parser"
  let ?comma = "Some (exact '','' :: (string, string) Parser)"
  have u: "?a (input ''b'') = Some Undefined"
    by (simp add: eval_defs)
  note z = manySep0_zero_items [where item = ?a and sep = ?comma and c = "input ''b''"]
  from z [THEN conjunct1, rule_format, OF u]
  have z1: "manySep0 ?a ?comma (input ''b'')
      = Some (Success (input ''b'') \<lparr>code = ''b'', start = 0, end' = 0\<rparr> [])"
    by (simp add: input_def)
  note z2 = z [THEN conjunct2, THEN conjunct1, rule_format, OF u]
  note z3 = z [THEN conjunct2, THEN conjunct2, THEN conjunct1, rule_format, OF u]
  note z4 = z [THEN conjunct2, THEN conjunct2, THEN conjunct2]
  from u z1 z2 z3 z4 show ?thesis by (intro conjI)
qed

subsection \<open>The JSON grammar on an object that is not closed\<close>

text \<open>
  C8. On the text \<^verbatim>\<open>{ "foo": 12\<close> the JSON grammar of the tests, as the document
  parser and as the value parser, returns an error whose input has the index 11 and whose
  message is \<^verbatim>\<open>Expected closing curly brace '}'\<close>, with any nesting budget of at least
  two.
\<close>

theorem json_missing_closing_brace:
  "jsonDocument (Suc (Suc depth)) (input ''{ \"foo\": 12'') =
     Some (Error \<lparr>ParseInput.code = ''{ \"foo\": 12'', index = 11\<rparr>
             (''Expected closing curly brace '' @ [CHR 0x27, CHR ''}'', CHR 0x27])) \<and>
   jsonValue (Suc (Suc depth)) (input ''{ \"foo\": 12'') =
     Some (Error \<lparr>ParseInput.code = ''{ \"foo\": 12'', index = 11\<rparr>
             (''Expected closing curly brace '' @ [CHR 0x27, CHR ''}'', CHR 0x27]))"
  by (simp add: json_defs)

subsection \<open>A trailing separator\<close>

text \<open>
  C9. When a run of \<open>manySep0\<close> with a separator calls the separator (so at least one
  item has matched), the separator succeeds and the item then returns \<^verbatim>\<open>undefined\<close>,
  \<open>manySep0\<close> returns a success with the items accumulated, the input left by the
  separator, and a span that ends at the index of that input.
\<close>

theorem manySep0_trailing_separator:
  "manySep0_calls_sep item (Some sp) inp n items \<and> sp n = Some (Success n1 s1 w) \<and>
   item n1 = Some Undefined \<longrightarrow>
     items \<noteq> [] \<and>
     manySep0 item (Some sp) inp =
       Some (Success n1
         \<lparr>code = ParseInput.code inp, start = index inp, end' = index n1\<rparr> items)"
proof (intro impI, elim conjE)
  assume calls: "manySep0_calls_sep item (Some sp) inp n items"
    and sep: "sp n = Some (Success n1 s1 w)" and item: "item n1 = Some Undefined"
  from manySep0_calls_loop(2) [OF calls]
  have "manySep0 item (Some sp) inp = manySep0_loop item (Some sp) inp n items"
    and ne: "items \<noteq> []" by simp_all
  with sep item show "items \<noteq> [] \<and>
     manySep0 item (Some sp) inp =
       Some (Success n1
         \<lparr>code = ParseInput.code inp, start = index inp, end' = index n1\<rparr> items)"
    by (simp add: manySep0_loop.simps [of item "Some sp" inp n items])
qed

theorem manySep0_trailing_separator_witness:
  "manySep0_calls_sep (exact ''a'') (Some (exact '','' :: (string, string) Parser))
     (input ''a,b'') \<lparr>ParseInput.code = ''a,b'', index = 1\<rparr> [''a''] \<and>
   exact '','' \<lparr>ParseInput.code = ''a,b'', index = 1\<rparr>
     = (Some (Success \<lparr>ParseInput.code = ''a,b'', index = 2\<rparr>
               \<lparr>code = ''a,b'', start = 1, end' = 2\<rparr> '','')
        :: (string, string) ParseResult option) \<and>
   exact ''a'' \<lparr>ParseInput.code = ''a,b'', index = 2\<rparr>
     = (Some Undefined :: (string, string) ParseResult option) \<and>
   manySep0 (exact ''a'') (Some (exact '','' :: (string, string) Parser)) (input ''a,b'')
     = Some (Success \<lparr>ParseInput.code = ''a,b'', index = 2\<rparr>
               \<lparr>code = ''a,b'', start = 0, end' = 2\<rparr> [''a''])"
proof -
  let ?a = "exact ''a'' :: (string, string) Parser"
  let ?comma = "exact '','' :: (string, string) Parser"
  let ?c1 = "\<lparr>ParseInput.code = ''a,b'', index = 1\<rparr>"
  let ?c2 = "\<lparr>ParseInput.code = ''a,b'', index = 2\<rparr>"
  have "manySep0_calls_sep ?a (Some ?comma) (input ''a,b'') ?c1 ([] @ [''a''])"
    by (rule next_sep [OF first_item _ refl]) (simp add: eval_defs)
  then have calls: "manySep0_calls_sep ?a (Some ?comma) (input ''a,b'') ?c1 [''a'']"
    by simp
  have sep: "?comma ?c1 = Some (Success ?c2 \<lparr>code = ''a,b'', start = 1, end' = 2\<rparr> '','')"
    and item: "?a ?c2 = Some Undefined"
    by (simp_all add: eval_defs)
  from manySep0_trailing_separator [rule_format, OF conjI [OF calls conjI [OF sep item]]]
  have "manySep0 ?a (Some ?comma) (input ''a,b'')
      = Some (Success ?c2 \<lparr>code = ''a,b'', start = 0, end' = 2\<rparr> [''a''])"
    by (simp add: input_def)
  with calls sep item show ?thesis by (intro conjI)
qed

subsection \<open>Termination of the repetition loops\<close>



end
